theory Spec2Isabelle
  imports
    Complex_Main
    "HOL-Library.Multiset"
    "HOL-Library.Char_ord"
    "HOL-Library.List_Lexorder"
    "HOL-Library.Product_Lexorder"
begin

section \<open>The inventory pipeline of inventory\_app.py\<close>

text \<open>
  The program reads two uploaded tables (a stock report and a sales report), cleans and
  aggregates each, left-joins the stock aggregation with the sales aggregation, derives a
  forecast and a stock-to-sales ratio, sorts, and highlights rows.

  Conventions of the embedding.
  \<^item> A number of a pandas column is a rational: the arithmetic of the program is modelled
    exactly, without the rounding error, the infinities and the overflow of binary floating
    point. A missing value (NaN) is \<open>None\<close> of an option type.
  \<^item> Text is a \<open>string\<close>, read as the UTF-8 bytes of the Python string; the lexicographic
    order on bytes agrees with Python's order on code points.
  \<^item> The column names of the source are Chinese; the fields of the records below are named
    after their English meaning.
  \<^item> A table is the list of its rows, every required column present. The failure of the
    source on a table without a required column (a KeyError, reported by the enclosing
    handler) is outside the model.
\<close>

subsection \<open>Cells and numeric coercion\<close>

text \<open>
  A cell of a quantity column as \<open>pd.to_numeric\<close> sees it: \<open>Number x\<close> is a cell that holds
  the number \<open>x\<close> or text that the library reads as \<open>x\<close>; \<open>NonNumeric s\<close> is any other
  text; \<open>Missing\<close> is an empty cell.
\<close>

datatype cell = Number rat | NonNumeric string | Missing

text \<open>\<open>pd.to_numeric(col, errors='coerce')\<close>, cell by cell: what does not parse becomes NaN.\<close>

fun to_numeric :: "cell \<Rightarrow> rat option" where
  "to_numeric (Number x) = Some x"
| "to_numeric (NonNumeric s) = None"
| "to_numeric Missing = None"

text \<open>\<open>.fillna(d)\<close>, cell by cell.\<close>

fun fillna :: "rat \<Rightarrow> rat option \<Rightarrow> rat" where
  "fillna d None = d"
| "fillna d (Some x) = x"

text \<open>\<open>pd.to_numeric(col, errors='coerce').fillna(0)\<close> on a whole column (lines 53 and 64).\<close>

definition coerce :: "cell \<Rightarrow> rat" where
  "coerce c = fillna 0 (to_numeric c)"


subsection \<open>Rounding and integer casts\<close>

text \<open>
  \<open>rint\<close> is the rounding of \<open>Series.round\<close> (numpy's \<open>rint\<close>): to the nearest integer,
  a tie going to the even neighbour.
\<close>

definition rint :: "rat \<Rightarrow> int" where
  "rint x = (let f = \<lfloor>x\<rfloor>; d = x - of_int f
             in if d < 1 / 2 then f
                else if 1 / 2 < d then f + 1
                else if even f then f else f + 1)"

text \<open>\<open>.round(n)\<close>: scale by \<open>10 ^ n\<close>, round to an integer, scale back.\<close>

definition round_decimals :: "nat \<Rightarrow> rat \<Rightarrow> rat" where
  "round_decimals n x = of_int (rint (x * 10 ^ n)) / 10 ^ n"

text \<open>\<open>.astype(int)\<close> on a float column: truncation towards zero.\<close>

definition astype_int :: "rat \<Rightarrow> int" where
  "astype_int x = (if 0 \<le> x then \<lfloor>x\<rfloor> else \<lceil>x\<rceil>)"

subsection \<open>The tables\<close>

text \<open>
  A raw sales row, projected to \<open>sales_cols\<close> (line 51):
  \<open>s_name\<close> is the product name, \<open>s_sku\<close> the SKU, \<open>s_country\<close> the country,
  \<open>s_qty\<close> the sales quantity.
\<close>

record sales_row =
  s_name :: "string option"
  s_sku :: "string option"
  s_country :: "string option"
  s_qty :: cell

text \<open>A sales row after line 53: the quantity is a number.\<close>

record sales_clean =
  sc_name :: "string option"
  sc_sku :: "string option"
  sc_country :: "string option"
  sc_qty :: rat

text \<open>
  A row of \<open>df_sales_grouped\<close>: the country, the SKU, and \<open>g_sales30\<close>, the summed
  quantity, renamed by the source to the total sales of the past 30 days.
\<close>

record sales_agg =
  g_country :: string
  g_sku :: string
  g_sales30 :: rat

text \<open>
  A raw stock row, projected to \<open>inv_target\<close> (line 60):
  \<open>i_name\<close> is the product name, \<open>i_sku\<close> the SKU, \<open>i_country\<close> the country or region,
  \<open>i_fba\<close> the FBA stock, \<open>i_inbound\<close> the inbound quantity, \<open>i_transit\<close> the quantity
  in transit.
\<close>

record stock_row =
  i_name :: "string option"
  i_sku :: "string option"
  i_country :: "string option"
  i_fba :: cell
  i_inbound :: cell
  i_transit :: cell

text \<open>A stock row after line 66: \<open>ic_transit_total\<close> is the in-transit total.\<close>

record stock_clean =
  ic_name :: "string option"
  ic_sku :: "string option"
  ic_country :: "string option"
  ic_fba :: rat
  ic_inbound :: rat
  ic_transit :: rat
  ic_transit_total :: rat

text \<open>A row of \<open>df_inv_grouped\<close>, the country-or-region column renamed to the country column
  of the sales table.\<close>

record stock_agg =
  a_country :: string
  a_name :: string
  a_sku :: string
  a_fba :: rat
  a_transit_total :: rat

text \<open>A row of \<open>final_df\<close> right after the merge of line 74: the sales total may be NaN.\<close>

record merged_row =
  m_country :: string
  m_name :: string
  m_sku :: string
  m_fba :: rat
  m_transit_total :: rat
  m_sales30 :: "rat option"

text \<open>
  A row of \<open>final_df\<close> after line 89, before the integer casts of line 93:
  \<open>p_forecast\<close> is the forecast of the next 30 days, \<open>p_ratio\<close> the stock-to-sales ratio.
\<close>

record scored_row =
  p_country :: string
  p_name :: string
  p_sku :: string
  p_fba :: rat
  p_transit_total :: rat
  p_sales30 :: rat
  p_forecast :: int
  p_ratio :: rat

text \<open>A row of the displayed and exported table, in the order of \<open>display_cols\<close>.\<close>

record summary_row =
  country :: string
  name :: string
  sku :: string
  fba :: int
  transit_total :: int
  sales30 :: int
  forecast :: int
  ratio :: rat

subsection \<open>Grouping\<close>

text \<open>
  \<open>df.groupby(keys, as_index=False)\<close> with the defaults \<open>sort=True\<close> and \<open>dropna=True\<close>:
  a row with a missing key is left out, there is one group for each distinct key, and the
  groups come in ascending order of the key. \<open>key\<close> gives the key of a row, \<open>None\<close> when
  one of its key cells is missing.
\<close>

definition groupby :: "('r \<Rightarrow> 'k::linorder option) \<Rightarrow> 'r list \<Rightarrow> ('k \<times> 'r list) list" where
  "groupby key rows =
     map (\<lambda>k. (k, filter (\<lambda>r. key r = Some k) rows)) (sort (remdups (List.map_filter key rows)))"

subsection \<open>Step 1: the sales table\<close>

definition df_sales :: "sales_row list \<Rightarrow> sales_clean list" where
  "df_sales df_sales_raw =
     map (\<lambda>r. \<lparr>sc_name = s_name r, sc_sku = s_sku r, sc_country = s_country r,
               sc_qty = coerce (s_qty r)\<rparr>) df_sales_raw"

text \<open>The key of line 55: country and SKU.\<close>

definition sales_key :: "sales_clean \<Rightarrow> (string \<times> string) option" where
  "sales_key r =
     (case sc_country r of None \<Rightarrow> None
      | Some c \<Rightarrow> (case sc_sku r of None \<Rightarrow> None | Some s \<Rightarrow> Some (c, s)))"

definition df_sales_grouped :: "sales_row list \<Rightarrow> sales_agg list" where
  "df_sales_grouped df_sales_raw =
     map (\<lambda>(k, rows). \<lparr>g_country = fst k, g_sku = snd k,
                       g_sales30 = sum_list (map sc_qty rows)\<rparr>)
         (groupby sales_key (df_sales df_sales_raw))"

subsection \<open>Step 2: the stock table\<close>

definition df_inv :: "stock_row list \<Rightarrow> stock_clean list" where
  "df_inv df_inv_raw =
     map (\<lambda>r. \<lparr>ic_name = i_name r, ic_sku = i_sku r, ic_country = i_country r,
               ic_fba = coerce (i_fba r), ic_inbound = coerce (i_inbound r),
               ic_transit = coerce (i_transit r),
               ic_transit_total = coerce (i_inbound r) + coerce (i_transit r)\<rparr>) df_inv_raw"

text \<open>The key of line 68: country or region, product name and SKU.\<close>

definition inv_key :: "stock_clean \<Rightarrow> (string \<times> string \<times> string) option" where
  "inv_key r =
     (case ic_country r of None \<Rightarrow> None
      | Some c \<Rightarrow> (case ic_name r of None \<Rightarrow> None
          | Some n \<Rightarrow> (case ic_sku r of None \<Rightarrow> None | Some s \<Rightarrow> Some (c, n, s))))"

definition df_inv_grouped :: "stock_row list \<Rightarrow> stock_agg list" where
  "df_inv_grouped df_inv_raw =
     map (\<lambda>(k, rows). \<lparr>a_country = fst k, a_name = fst (snd k), a_sku = snd (snd k),
                       a_fba = sum_list (map ic_fba rows),
                       a_transit_total = sum_list (map ic_transit_total rows)\<rparr>)
         (groupby inv_key (df_inv df_inv_raw))"

subsection \<open>Step 3: the merge\<close>

text \<open>
  \<open>pd.merge(left, right, on=[country, SKU], how='left')\<close>: the rows of the left table in
  their order; a left row is paired with every right row of the same key, in the order of
  the right table, and is kept with NaN in the right table's columns when there is none.
\<close>

definition join_row :: "stock_agg \<Rightarrow> rat option \<Rightarrow> merged_row" where
  "join_row l v =
     \<lparr>m_country = a_country l, m_name = a_name l, m_sku = a_sku l, m_fba = a_fba l,
      m_transit_total = a_transit_total l, m_sales30 = v\<rparr>"

definition matches :: "stock_agg \<Rightarrow> sales_agg list \<Rightarrow> sales_agg list" where
  "matches l right = filter (\<lambda>r. g_country r = a_country l \<and> g_sku r = a_sku l) right"

definition merge_left :: "stock_agg list \<Rightarrow> sales_agg list \<Rightarrow> merged_row list" where
  "merge_left left right =
     concat (map (\<lambda>l. case matches l right of
                        [] \<Rightarrow> [join_row l None]
                      | ms \<Rightarrow> map (\<lambda>r. join_row l (Some (g_sales30 r))) ms) left)"


subsection \<open>Step 4: forecast, ratio, casts and order\<close>

text \<open>Lines 75 to 89 on one row; \<open>growth_factor\<close> is the value of the slider.\<close>

definition score_row :: "rat \<Rightarrow> merged_row \<Rightarrow> scored_row" where
  "score_row growth_factor m =
     (let s = fillna 0 (m_sales30 m)
      in \<lparr>p_country = m_country m, p_name = m_name m, p_sku = m_sku m, p_fba = m_fba m,
          p_transit_total = m_transit_total m, p_sales30 = s,
          p_forecast = astype_int (round_decimals 0 (s * growth_factor)),
          p_ratio = round_decimals 1
                      (if 0 < s then (m_fba m + m_transit_total m) / s else 99)\<rparr>)"

text \<open>
  Line 93 and the projection to \<open>display_cols\<close> on one row. The forecast is an integer
  since line 79, and its second cast changes nothing.
\<close>

definition cast_row :: "scored_row \<Rightarrow> summary_row" where
  "cast_row p =
     \<lparr>country = p_country p, name = p_name p, sku = p_sku p, fba = astype_int (p_fba p),
      transit_total = astype_int (p_transit_total p), sales30 = astype_int (p_sales30 p),
      forecast = p_forecast p, ratio = p_ratio p\<rparr>"

text \<open>
  \<open>sort_values(by=[ratio, sales total], ascending=[True, False])\<close>: a stable sort on the
  pair of the ratio and the negated sales total. With more than one sort column pandas
  orders the rows by a lexicographic sort of the columns, which is stable; both columns
  are numbers without NaN at this point, so the position of missing values plays no part.
\<close>

definition sort_values :: "summary_row list \<Rightarrow> summary_row list" where
  "sort_values rows = sort_key (\<lambda>r. (ratio r, - sales30 r)) rows"

definition merged :: "stock_row list \<Rightarrow> sales_row list \<Rightarrow> merged_row list" where
  "merged df_inv_raw df_sales_raw =
     merge_left (df_inv_grouped df_inv_raw) (df_sales_grouped df_sales_raw)"

definition final_df :: "rat \<Rightarrow> stock_row list \<Rightarrow> sales_row list \<Rightarrow> summary_row list" where
  "final_df growth_factor df_inv_raw df_sales_raw =
     sort_values (map (cast_row \<circ> score_row growth_factor) (merged df_inv_raw df_sales_raw))"

subsection \<open>Step 5: the highlight rule\<close>

definition highlight :: string where
  "highlight = ''background-color: #FF0000; color: #FFFF00; font-weight: bold;''"

definition default_style :: string where
  "default_style = ''''"

text \<open>One style for each of the eight cells of the row.\<close>

definition highlight_low_ratio :: "summary_row \<Rightarrow> string list" where
  "highlight_low_ratio row =
     (if ratio row < 2 \<and> 0 < sales30 row then replicate 8 highlight
      else replicate 8 default_style)"

subsection \<open>The loader\<close>

datatype encoding = UTF8 | GBK | UTF16

record 'b uploaded_file =
  file_name :: string
  file_content :: 'b

text \<open>\<open>str.endswith\<close> for one suffix.\<close>

definition endswith :: "string \<Rightarrow> string \<Rightarrow> bool" where
  "endswith s suf = (length suf \<le> length s \<and> drop (length s - length suf) s = suf)"

text \<open>
  The loop of lines 24 to 27. \<open>read_csv enc content\<close> is the library's parser, \<open>None\<close>
  when it raises: the bare \<open>except\<close> of the source catches every exception.
\<close>

fun try_encodings :: "(encoding \<Rightarrow> 'b \<Rightarrow> 't option) \<Rightarrow> 'b \<Rightarrow> encoding list \<Rightarrow> 't option" where
  "try_encodings read_csv content [] = None"
| "try_encodings read_csv content (enc # encs) =
     (case read_csv enc content of
        Some t \<Rightarrow> Some t
      | None \<Rightarrow> try_encodings read_csv content encs)"

datatype load_error = ExcelError

text \<open>
  \<open>read_file\<close>: \<open>Inr None\<close> is the null result, \<open>Inl ExcelError\<close> an exception of
  \<open>pd.read_excel\<close>, which the function does not catch (\<open>read_excel content = None\<close>).
\<close>

definition read_file ::
  "('b \<Rightarrow> 't option) \<Rightarrow> (encoding \<Rightarrow> 'b \<Rightarrow> 't option) \<Rightarrow> 'b uploaded_file option
     \<Rightarrow> load_error + 't option" where
  "read_file read_excel read_csv file =
     (case file of
        None \<Rightarrow> Inr None
      | Some f \<Rightarrow>
          if endswith (file_name f) ''.xlsx'' \<or> endswith (file_name f) ''.xls''
          then (case read_excel (file_content f) of
                  None \<Rightarrow> Inl ExcelError
                | Some t \<Rightarrow> Inr (Some t))
          else Inr (try_encodings read_csv (file_content f) [UTF8, GBK, UTF16]))"

section \<open>Properties\<close>

subsection \<open>Numeric coercion\<close>







subsection \<open>The highlight rule\<close>

lemma highlight_neq_default: "replicate 8 highlight \<noteq> replicate 8 default_style"
  by (simp add: highlight_def default_style_def numeral_eq_Suc)

text \<open>
  Claim C3. A summary row gets the alert style in all of its cells exactly when its ratio
  is below 2 and its sales total is positive, and the empty style in all of its cells
  otherwise; a row whose ratio is exactly 2 is not highlighted, and neither is a row whose
  sales total is 0, whatever its ratio.
\<close>

theorem highlight_low_ratio_iff:
  "(highlight_low_ratio row = replicate 8 highlight) = (ratio row < 2 \<and> 0 < sales30 row)
   \<and> (highlight_low_ratio row = replicate 8 default_style) = (\<not> (ratio row < 2 \<and> 0 < sales30 row))
   \<and> highlight_low_ratio (row\<lparr>ratio := 2\<rparr>) = replicate 8 default_style
   \<and> highlight_low_ratio (row\<lparr>sales30 := 0\<rparr>) = replicate 8 default_style"
  using highlight_neq_default highlight_neq_default [symmetric]
  by (simp add: highlight_low_ratio_def)

theorem highlight_low_ratio_iff_witness:
  "highlight_low_ratio \<lparr>country = ''US'', name = ''Mug'', sku = ''SKU1'', fba = 15,
      transit_total = 5, sales30 = 20, forecast = 20, ratio = 1\<rparr> = replicate 8 highlight
   \<and> highlight_low_ratio \<lparr>country = ''US'', name = ''Mug'', sku = ''SKU1'', fba = 15,
      transit_total = 5, sales30 = 10, forecast = 10, ratio = 2\<rparr> = replicate 8 default_style"
  using highlight_low_ratio_iff [of "\<lparr>country = ''US'', name = ''Mug'', sku = ''SKU1'', fba = 15,
      transit_total = 5, sales30 = 20, forecast = 20, ratio = 1\<rparr>"]
    highlight_low_ratio_iff [of "\<lparr>country = ''US'', name = ''Mug'', sku = ''SKU1'', fba = 15,
      transit_total = 5, sales30 = 10, forecast = 10, ratio = 2\<rparr>"]
  by simp

subsection \<open>The loader\<close>

lemma try_encodings_find:
  "try_encodings read_csv content encs =
     (case find (\<lambda>enc. read_csv enc content \<noteq> None) encs of
        None \<Rightarrow> None
      | Some enc \<Rightarrow> read_csv enc content)"
  by (induction encs) (auto split: option.splits)

text \<open>
  Claim C7. For a file whose name does not end in .xlsx or .xls, the loader returns what
  the delimited-text parser gives under the first of UTF-8, GBK, UTF-16, in this order,
  under which it does not raise, and the null result when it raises under all three.
\<close>

theorem read_file_first_encoding:
  assumes "\<not> (endswith (file_name f) ''.xlsx'' \<or> endswith (file_name f) ''.xls'')"
  shows "read_file read_excel read_csv (Some f) =
           Inr (case find (\<lambda>enc. read_csv enc (file_content f) \<noteq> None) [UTF8, GBK, UTF16] of
                  None \<Rightarrow> None
                | Some enc \<Rightarrow> read_csv enc (file_content f))"
  using assms unfolding read_file_def
  by (simp only: try_encodings_find option.case if_False)

theorem read_file_first_encoding_witness:
  "read_file (\<lambda>b. None) (\<lambda>enc b. if enc = UTF8 then None else Some (enc, b))
     (Some \<lparr>file_name = ''sales.csv'', file_content = ''a,b''\<rparr>) = Inr (Some (GBK, ''a,b''))
   \<and> read_file (\<lambda>b. None) (\<lambda>enc b. None :: string option)
     (Some \<lparr>file_name = ''sales.csv'', file_content = ''a,b''\<rparr>) = Inr None"
  using read_file_first_encoding [of "\<lparr>file_name = ''sales.csv'', file_content = ''a,b''\<rparr>"
      "\<lambda>b. None" "\<lambda>enc b. if enc = UTF8 then None else Some (enc, b)"]
    read_file_first_encoding [of "\<lparr>file_name = ''sales.csv'', file_content = ''a,b''\<rparr>"
      "\<lambda>b. None" "\<lambda>enc b. None :: string option"]
  by (simp add: endswith_def)

subsection \<open>Rounding\<close>








lemma distinct_groupby: "distinct (map fst (groupby key rows))"
  by (simp add: groupby_def comp_def)

subsection \<open>The merge\<close>

lemma sales_keys_distinct:
  "distinct (map (\<lambda>r. (g_country r, g_sku r)) (df_sales_grouped df_sales_raw))"
proof -
  have "map (\<lambda>r. (g_country r, g_sku r)) (df_sales_grouped df_sales_raw)
          = map fst (groupby sales_key (df_sales df_sales_raw))"
    by (simp add: df_sales_grouped_def case_prod_beta)
  then show ?thesis by (simp only: distinct_groupby)
qed














subsection \<open>The order of the final table\<close>

lemma sort_values_sorted:
  "sorted_wrt (\<lambda>a b. ratio a < ratio b \<or> (ratio a = ratio b \<and> sales30 b \<le> sales30 a))
     (sort_values rows)"
proof -
  have "sorted (map (\<lambda>r. (ratio r, - sales30 r)) (sort_values rows))"
    unfolding sort_values_def by (rule sorted_sort_key)
  then have "sorted_wrt (\<lambda>a b. (ratio a, - sales30 a) \<le> (ratio b, - sales30 b)) (sort_values rows)"
    by (simp only: sorted_map)
  then show ?thesis
    by (rule sorted_wrt_mono_rel [rotated]) (auto simp: less_eq_prod_def)
qed

lemma sort_values_stable:
  "filter (\<lambda>r. ratio r = q \<and> sales30 r = s) (sort_values rows)
     = filter (\<lambda>r. ratio r = q \<and> sales30 r = s) rows"
proof -
  have eq: "(\<lambda>r. ratio r = q \<and> sales30 r = s) = (\<lambda>r. (ratio r, - sales30 r) = (q, - s))"
    by auto
  show ?thesis
    unfolding eq sort_values_def by (rule sort_key_stable)
qed

lemma mset_sort_values: "mset (sort_values rows) = mset rows"
  by (simp add: sort_values_def)

text \<open>
  Claim C5. The rows of the final table are in ascending order of the ratio and, among
  equal ratios, in descending order of the sales total; the table is a rearrangement of the
  scored rows; and the rows that agree on both keys keep the order they had before the sort.
\<close>

theorem final_df_sorted_stable:
  "sorted_wrt (\<lambda>a b. ratio a < ratio b \<or> (ratio a = ratio b \<and> sales30 b \<le> sales30 a))
     (final_df g stock sales)
   \<and> mset (final_df g stock sales) = mset (map (cast_row \<circ> score_row g) (merged stock sales))
   \<and> filter (\<lambda>r. ratio r = q \<and> sales30 r = s) (final_df g stock sales)
       = filter (\<lambda>r. ratio r = q \<and> sales30 r = s)
           (map (cast_row \<circ> score_row g) (merged stock sales))"
  unfolding final_df_def
  by (intro conjI sort_values_sorted sort_values_stable mset_sort_values)


theorem final_df_sorted_stable_witness:
  "final_df 1
    [\<lparr>i_name = Some ''Mug'', i_sku = Some ''SKU1'', i_country = Some ''US'',
      i_fba = Number 15, i_inbound = Number 0, i_transit = Number 5\<rparr>,
     \<lparr>i_name = Some ''Cup'', i_sku = Some ''SKU2'', i_country = Some ''US'',
      i_fba = Number 4, i_inbound = NonNumeric ''x'', i_transit = Missing\<rparr>,
     \<lparr>i_name = Some ''Bowl'', i_sku = Some ''SKU3'', i_country = Some ''DE'',
      i_fba = Number 30, i_inbound = Number 0, i_transit = Number 10\<rparr>]
    [\<lparr>s_name = None, s_sku = Some ''SKU1'', s_country = Some ''US'', s_qty = Number 10\<rparr>,
     \<lparr>s_name = None, s_sku = Some ''SKU3'', s_country = Some ''DE'', s_qty = Number 20\<rparr>]
   = [\<lparr>country = ''DE'', name = ''Bowl'', sku = ''SKU3'', fba = 30,
       transit_total = 10, sales30 = 20, forecast = 20, ratio = 2\<rparr>,
      \<lparr>country = ''US'', name = ''Mug'', sku = ''SKU1'', fba = 15,
       transit_total = 5, sales30 = 10, forecast = 10, ratio = 2\<rparr>,
      \<lparr>country = ''US'', name = ''Cup'', sku = ''SKU2'', fba = 4,
       transit_total = 0, sales30 = 0, forecast = 0, ratio = 99\<rparr>]
   \<and> sorted_wrt (\<lambda>a b. ratio a < ratio b \<or> (ratio a = ratio b \<and> sales30 b \<le> sales30 a))
     (final_df 1
    [\<lparr>i_name = Some ''Mug'', i_sku = Some ''SKU1'', i_country = Some ''US'',
      i_fba = Number 15, i_inbound = Number 0, i_transit = Number 5\<rparr>,
     \<lparr>i_name = Some ''Cup'', i_sku = Some ''SKU2'', i_country = Some ''US'',
      i_fba = Number 4, i_inbound = NonNumeric ''x'', i_transit = Missing\<rparr>,
     \<lparr>i_name = Some ''Bowl'', i_sku = Some ''SKU3'', i_country = Some ''DE'',
      i_fba = Number 30, i_inbound = Number 0, i_transit = Number 10\<rparr>]
    [\<lparr>s_name = None, s_sku = Some ''SKU1'', s_country = Some ''US'', s_qty = Number 10\<rparr>,
     \<lparr>s_name = None, s_sku = Some ''SKU3'', s_country = Some ''DE'', s_qty = Number 20\<rparr>])"
proof (rule conjI)
  show "final_df 1
    [\<lparr>i_name = Some ''Mug'', i_sku = Some ''SKU1'', i_country = Some ''US'',
      i_fba = Number 15, i_inbound = Number 0, i_transit = Number 5\<rparr>,
     \<lparr>i_name = Some ''Cup'', i_sku = Some ''SKU2'', i_country = Some ''US'',
      i_fba = Number 4, i_inbound = NonNumeric ''x'', i_transit = Missing\<rparr>,
     \<lparr>i_name = Some ''Bowl'', i_sku = Some ''SKU3'', i_country = Some ''DE'',
      i_fba = Number 30, i_inbound = Number 0, i_transit = Number 10\<rparr>]
    [\<lparr>s_name = None, s_sku = Some ''SKU1'', s_country = Some ''US'', s_qty = Number 10\<rparr>,
     \<lparr>s_name = None, s_sku = Some ''SKU3'', s_country = Some ''DE'', s_qty = Number 20\<rparr>]
   = [\<lparr>country = ''DE'', name = ''Bowl'', sku = ''SKU3'', fba = 30,
       transit_total = 10, sales30 = 20, forecast = 20, ratio = 2\<rparr>,
      \<lparr>country = ''US'', name = ''Mug'', sku = ''SKU1'', fba = 15,
       transit_total = 5, sales30 = 10, forecast = 10, ratio = 2\<rparr>,
      \<lparr>country = ''US'', name = ''Cup'', sku = ''SKU2'', fba = 4,
       transit_total = 0, sales30 = 0, forecast = 0, ratio = 99\<rparr>]"
    by code_simp
qed (rule final_df_sorted_stable [THEN conjunct1])

subsection \<open>Ratio and forecast\<close>












subsection \<open>The product names of the sales table\<close>

lemma groupby_sum_depends:
  "map (\<lambda>(k, rows). f k (sum_list (map q rows))) (groupby key xs)
     = map (\<lambda>k. f k (sum_list (map snd (filter (\<lambda>p. fst p = Some k) (map (\<lambda>r. (key r, q r)) xs)))))
         (sort (remdups (List.map_filter fst (map (\<lambda>r. (key r, q r)) xs))))"
proof -
  have keys: "List.map_filter fst (map (\<lambda>r. (key r, q r)) xs) = List.map_filter key xs"
    by (induction xs) (simp_all add: map_filter_simps split: option.splits)
  have sums: "\<And>k. map snd (filter (\<lambda>p. fst p = Some k) (map (\<lambda>r. (key r, q r)) xs))
                  = map q (filter (\<lambda>r. key r = Some k) xs)"
    by (induction xs) simp_all
  show ?thesis
    by (simp add: groupby_def keys sums comp_def)
qed

lemma df_sales_pairs:
  "map (\<lambda>r. (sales_key r, sc_qty r)) (df_sales raw)
     = map (\<lambda>t. (case fst (snd t) of None \<Rightarrow> None
                  | Some c \<Rightarrow> (case fst t of None \<Rightarrow> None | Some s \<Rightarrow> Some (c, s)),
                 coerce (snd (snd t))))
         (map (\<lambda>r. (s_sku r, s_country r, s_qty r)) raw)"
  by (simp add: df_sales_def sales_key_def comp_def split: option.splits)

lemma df_sales_grouped_cong:
  assumes "map (\<lambda>r. (s_sku r, s_country r, s_qty r)) sales1
             = map (\<lambda>r. (s_sku r, s_country r, s_qty r)) sales2"
  shows "df_sales_grouped sales1 = df_sales_grouped sales2"
proof -
  have "map (\<lambda>r. (sales_key r, sc_qty r)) (df_sales sales1)
          = map (\<lambda>r. (sales_key r, sc_qty r)) (df_sales sales2)"
    by (simp only: df_sales_pairs assms)
  then show ?thesis
    unfolding df_sales_grouped_def
    by (simp only: groupby_sum_depends [where f = "\<lambda>k v. \<lparr>g_country = fst k, g_sku = snd k, g_sales30 = v\<rparr>"])
qed

text \<open>
  Claim C10. Two sales tables that agree, row by row, on SKU, country and quantity, and may
  differ in the product names, give the same final table and the same highlighting, for
  the same stock table and growth factor: the product name of the output is the one of the
  stock table.
\<close>

theorem sales_name_no_effect:
  assumes "map (\<lambda>r. (s_sku r, s_country r, s_qty r)) sales1
             = map (\<lambda>r. (s_sku r, s_country r, s_qty r)) sales2"
  shows "final_df g stock sales1 = final_df g stock sales2
         \<and> map highlight_low_ratio (final_df g stock sales1)
             = map highlight_low_ratio (final_df g stock sales2)"
proof -
  have "df_sales_grouped sales1 = df_sales_grouped sales2"
    using assms by (rule df_sales_grouped_cong)
  then have "final_df g stock sales1 = final_df g stock sales2"
    by (simp only: final_df_def merged_def)
  then show ?thesis by simp
qed

theorem sales_name_no_effect_witness:
  "final_df 1
     [\<lparr>i_name = Some ''Mug'', i_sku = Some ''SKU1'', i_country = Some ''US'',
       i_fba = Number 15, i_inbound = Number 0, i_transit = Number 5\<rparr>]
     [\<lparr>s_name = Some ''Mug'', s_sku = Some ''SKU1'', s_country = Some ''US'', s_qty = Number 20\<rparr>]
   = final_df 1
     [\<lparr>i_name = Some ''Mug'', i_sku = Some ''SKU1'', i_country = Some ''US'',
       i_fba = Number 15, i_inbound = Number 0, i_transit = Number 5\<rparr>]
     [\<lparr>s_name = Some ''Teapot'', s_sku = Some ''SKU1'', s_country = Some ''US'', s_qty = Number 20\<rparr>]"
  using sales_name_no_effect [of
      "[\<lparr>s_name = Some ''Mug'', s_sku = Some ''SKU1'', s_country = Some ''US'', s_qty = Number 20\<rparr>]"
      "[\<lparr>s_name = Some ''Teapot'', s_sku = Some ''SKU1'', s_country = Some ''US'', s_qty = Number 20\<rparr>]"
      1
      "[\<lparr>i_name = Some ''Mug'', i_sku = Some ''SKU1'', i_country = Some ''US'',
        i_fba = Number 15, i_inbound = Number 0, i_transit = Number 5\<rparr>]"]
  by simp

end
